theory Spec2Isabelle
  imports Main "HOL-Library.Word"
begin

section \<open>Values\<close>

text \<open>
  The adapter in \<^verbatim>\<open>src/ollama.ts\<close> moves JSON data between the agent SDK and the
  Ollama chat API. \<open>json\<close> is the SDK's \<^verbatim>\<open>JSONValue\<close>: tool inputs, tool-call arguments,
  structured tool results and input schemas. Numbers are passed through by the adapter
  without arithmetic, so they are kept as integers here.
\<close>

datatype json =
    JNull
  | JBool bool
  | JNum int
  | JStr string
  | JArr "json list"
  | JObj "(string \<times> json) list"

text \<open>
  \<open>jsval\<close> is a JavaScript value as it stands in the wire request (typed \<^verbatim>\<open>any\<close> in
  the source). An object is a map from property names to values; a property whose value
  is \<^verbatim>\<open>undefined\<close> is present with the value \<open>JsUndefined\<close>, as an object literal
  \<^verbatim>\<open>{k: undefined}\<close> has it.
\<close>

datatype jsval =
    JsUndefined
  | JsBool bool
  | JsNum int
  | JsStr string
  | JsBytes "8 word list"
  | JsJson json
  | JsArr "jsval list"
  | JsObj "string \<Rightarrow> jsval option"

type_synonym js_object = "string \<Rightarrow> jsval option"

text \<open>
  The conversion of a value to a string (\<^verbatim>\<open>ToString\<close> of the language) on the values
  above: a string is itself, a plain object is \<^verbatim>\<open>[object Object]\<close>, and an array or a
  byte array is its elements joined by commas, with nothing for an element that is
  \<^verbatim>\<open>null\<close> or \<^verbatim>\<open>undefined\<close>. \<open>numberString\<close> is the decimal form of an integer, which is
  what the language gives below \<open>10\<^sup>2\<^sup>1\<close>.
\<close>

fun digits :: "nat \<Rightarrow> string" where
  "digits n =
     (if n < 10 then [''0123456789'' ! n]
      else digits (n div 10) @ [''0123456789'' ! (n mod 10)])"

definition numberString :: "int \<Rightarrow> string" where
  "numberString n = (if n < 0 then CHR ''-'' # digits (nat (- n)) else digits (nat n))"

fun commaJoin :: "string list \<Rightarrow> string" where
  "commaJoin [] = []"
| "commaJoin [s] = s"
| "commaJoin (s # t # ss) = s @ '','' @ commaJoin (t # ss)"

fun jsonToString :: "json \<Rightarrow> string" where
  "jsonToString JNull = ''null''"
| "jsonToString (JBool b) = (if b then ''true'' else ''false'')"
| "jsonToString (JNum n) = numberString n"
| "jsonToString (JStr s) = s"
| "jsonToString (JArr xs) =
     commaJoin (map (\<lambda>x. case x of JNull \<Rightarrow> [] | _ \<Rightarrow> jsonToString x) xs)"
| "jsonToString (JObj kvs) = ''[object Object]''"

fun toString :: "jsval \<Rightarrow> string" where
  "toString JsUndefined = ''undefined''"
| "toString (JsBool b) = (if b then ''true'' else ''false'')"
| "toString (JsNum n) = numberString n"
| "toString (JsStr s) = s"
| "toString (JsBytes bytes) = commaJoin (map (\<lambda>b. digits (unat b)) bytes)"
| "toString (JsJson j) = jsonToString j"
| "toString (JsArr xs) =
     commaJoin (map (\<lambda>x. case x of
                              JsUndefined \<Rightarrow> []
                            | JsJson JNull \<Rightarrow> []
                            | _ \<Rightarrow> toString x) xs)"
| "toString (JsObj obj) = ''[object Object]''"

text \<open>
  What \<^verbatim>\<open>Array.prototype.join\<close> makes of one element of the array: the empty string
  for \<^verbatim>\<open>undefined\<close> and \<^verbatim>\<open>null\<close>, and the element converted to a string otherwise.
\<close>

fun joinItem :: "jsval \<Rightarrow> string" where
  "joinItem JsUndefined = []"
| "joinItem (JsJson JNull) = []"
| "joinItem v = toString v"

text \<open>
  The two built-ins of the JavaScript runtime that the adapter calls.
  \<open>JSON_stringify\<close> is \<^verbatim>\<open>JSON.stringify\<close> on a \<^verbatim>\<open>JSONValue\<close> (where it always returns a
  string). \<open>random_suffix k\<close> is the value of
  \<^verbatim>\<open>Math.random().toString(36).substring(2, 9)\<close> at its \<open>k\<close>-th evaluation within one
  invocation of \<^verbatim>\<open>stream\<close>, counted from 0.
\<close>

record runtime =
  JSON_stringify :: "json \<Rightarrow> string"
  random_suffix :: "nat \<Rightarrow> string"

section \<open>Inputs of the adapter\<close>

datatype keep_alive = KeepAliveString string | KeepAliveNumber int

text \<open>
  \<^verbatim>\<open>OllamaModelConfig\<close>; an optional field is an \<open>option\<close>, and the two open bags are
  objects.
\<close>

record config =
  modelId :: string
  host :: "string option"
  temperature :: "int option"
  maxTokens :: "int option"
  topP :: "int option"
  stopSequences :: "string list option"
  keepAlive :: "keep_alive option"
  options :: "js_object option"
  params :: "js_object option"

text \<open>
  A system prompt is a string or a sequence of system content blocks. Of a block the
  formatter reads the property \<^verbatim>\<open>text\<close> only, if the block has one, whatever it holds:
  \<open>SystemTextBlock t\<close> is a text block, whose \<^verbatim>\<open>text\<close> is the string \<open>t\<close>;
  \<open>SystemBlockWithText v\<close> is a block whose \<^verbatim>\<open>text\<close> holds the value \<open>v\<close>, which need not
  be a string (the \<^verbatim>\<open>text\<close> of a guard-content block is an object, or \<^verbatim>\<open>undefined\<close>);
  \<open>SystemOtherBlock\<close> is a block without a property \<^verbatim>\<open>text\<close> (a cache point).
\<close>

datatype system_content_block =
    SystemTextBlock string
  | SystemBlockWithText jsval
  | SystemOtherBlock

datatype system_prompt = PromptString string | PromptBlocks "system_content_block list"

record tool_spec =
  name :: string
  description :: string
  inputSchema :: "json option"

text \<open>\<^verbatim>\<open>StreamOptions\<close>: the per-call options of the SDK that the adapter reads.\<close>

record stream_options =
  systemPrompt :: "system_prompt option"
  toolSpecs :: "tool_spec list option"

datatype image_source = ImageSourceBytes "8 word list" | ImageSourceOther

text \<open>An item of a tool result: the source tests \<^verbatim>\<open>"json" in result\<close>.\<close>

datatype tool_result_content = JsonBlock json | ResultTextBlock string

text \<open>
  The content blocks of the SDK. \<open>ToolUseBlock name toolUseId input\<close> and
  \<open>ToolResultBlock toolUseId content\<close> carry the tool-use identifier that the SDK keeps
  on them; \<open>OtherBlock\<close> stands for every block class the formatter has no branch for.
\<close>

datatype content_block =
    TextBlock string
  | ImageBlock image_source
  | ToolUseBlock string string json
  | ToolResultBlock string "tool_result_content list"
  | OtherBlock

record message =
  role :: string
  content :: "content_block list"

section \<open>The request formatter\<close>

text \<open>
  What a block gives to the content of the system message: the element
  \<^verbatim>\<open>"text" in b ? b.text : ""\<close> that \<^verbatim>\<open>map\<close> computes for it, as \<^verbatim>\<open>join("")\<close> then
  converts it.
\<close>

fun block_text :: "system_content_block \<Rightarrow> string" where
  "block_text (SystemTextBlock t) = joinItem (JsStr t)"
| "block_text (SystemBlockWithText v) = joinItem v"
| "block_text SystemOtherBlock = joinItem (JsStr [])"

text \<open>
  The block \<^verbatim>\<open>if (systemPrompt) { ... formattedMessages.push(...) }\<close>. Of the values a
  system prompt can take, \<^verbatim>\<open>undefined\<close> and the empty string are falsy; every array is
  truthy, the empty one too.
\<close>

fun handleSystemPrompt :: "system_prompt option \<Rightarrow> jsval list \<Rightarrow> jsval list" where
  "handleSystemPrompt None formattedMessages = formattedMessages"
| "handleSystemPrompt (Some (PromptString s)) formattedMessages =
     (if s = [] then formattedMessages
      else formattedMessages @ [JsObj [''role'' \<mapsto> JsStr ''system'', ''content'' \<mapsto> JsStr s]])"
| "handleSystemPrompt (Some (PromptBlocks bs)) formattedMessages =
     formattedMessages @
       [JsObj [''role'' \<mapsto> JsStr ''system'', ''content'' \<mapsto> JsStr (concat (map block_text bs))]]"

text \<open>The body of the loop over the items of a tool result.\<close>

definition pushToolResult :: "runtime \<Rightarrow> tool_result_content \<Rightarrow> jsval list \<Rightarrow> jsval list" where
  "pushToolResult rt result formattedMessages =
     formattedMessages @
       [JsObj [''role'' \<mapsto> JsStr ''tool'',
               ''content'' \<mapsto> JsStr (case result of
                                          JsonBlock j \<Rightarrow> JSON_stringify rt j
                                        | ResultTextBlock t \<Rightarrow> t)]]"

text \<open>
  The body of the loop over the blocks of a message: the \<^verbatim>\<open>if / else if\<close> chain on the
  block's class, which has no final \<^verbatim>\<open>else\<close>.
\<close>

fun pushBlock :: "runtime \<Rightarrow> string \<Rightarrow> content_block \<Rightarrow> jsval list \<Rightarrow> jsval list" where
  "pushBlock rt r (TextBlock t) formattedMessages =
     formattedMessages @ [JsObj [''role'' \<mapsto> JsStr r, ''content'' \<mapsto> JsStr t]]"
| "pushBlock rt r (ImageBlock (ImageSourceBytes bytes)) formattedMessages =
     formattedMessages @ [JsObj [''role'' \<mapsto> JsStr r, ''images'' \<mapsto> JsArr [JsBytes bytes]]]"
| "pushBlock rt r (ImageBlock ImageSourceOther) formattedMessages = formattedMessages"
| "pushBlock rt r (ToolUseBlock nm toolUseId input) formattedMessages =
     formattedMessages @
       [JsObj [''role'' \<mapsto> JsStr r,
               ''tool_calls'' \<mapsto>
                 JsArr [JsObj [''function'' \<mapsto>
                   JsObj [''name'' \<mapsto> JsStr nm, ''arguments'' \<mapsto> JsJson input]]]]]"
| "pushBlock rt r (ToolResultBlock toolUseId results) formattedMessages =
     fold (pushToolResult rt) results formattedMessages"
| "pushBlock rt r OtherBlock formattedMessages = formattedMessages"

text \<open>The two nested loops over the conversation.\<close>

definition pushMessage :: "runtime \<Rightarrow> message \<Rightarrow> jsval list \<Rightarrow> jsval list" where
  "pushMessage rt msg formattedMessages = fold (pushBlock rt (role msg)) (content msg) formattedMessages"

definition formatMessages :: "runtime \<Rightarrow> message list \<Rightarrow> stream_options option \<Rightarrow> jsval list" where
  "formatMessages rt messages opts =
     fold (pushMessage rt) messages
       (handleSystemPrompt (case opts of None \<Rightarrow> None | Some os \<Rightarrow> systemPrompt os) [])"

text \<open>A field that may be \<^verbatim>\<open>undefined\<close>, as a value.\<close>

definition optional :: "('a \<Rightarrow> jsval) \<Rightarrow> 'a option \<Rightarrow> jsval" where
  "optional f v = (case v of None \<Rightarrow> JsUndefined | Some x \<Rightarrow> f x)"

fun keepAliveValue :: "keep_alive \<Rightarrow> jsval" where
  "keepAliveValue (KeepAliveString s) = JsStr s"
| "keepAliveValue (KeepAliveNumber n) = JsNum n"

text \<open>\<^verbatim>\<open>bag || {}\<close>\<close>

definition orEmpty :: "js_object option \<Rightarrow> js_object" where
  "orEmpty bag = (case bag of None \<Rightarrow> Map.empty | Some obj \<Rightarrow> obj)"

definition formatTool :: "tool_spec \<Rightarrow> jsval" where
  "formatTool spec =
     JsObj [''type'' \<mapsto> JsStr ''function'',
            ''function'' \<mapsto>
              JsObj [''name'' \<mapsto> JsStr (name spec),
                     ''description'' \<mapsto> JsStr (description spec),
                     ''parameters'' \<mapsto> optional JsJson (inputSchema spec)]]"

text \<open>
  \<^verbatim>\<open>_formatRequest\<close>. The object literal lists its properties in the order of the
  source; a spread \<^verbatim>\<open>...bag\<close> at the end of a literal overrides the properties before
  it, which is \<open>++\<close> on maps.
\<close>

definition formatRequest :: "runtime \<Rightarrow> config \<Rightarrow> message list \<Rightarrow> stream_options option \<Rightarrow> js_object" where
  "formatRequest rt cfg messages opts =
     [''model'' \<mapsto> JsStr (modelId cfg),
      ''messages'' \<mapsto> JsArr (formatMessages rt messages opts),
      ''stream'' \<mapsto> JsBool True,
      ''options'' \<mapsto>
        JsObj ([''temperature'' \<mapsto> optional JsNum (temperature cfg),
                ''num_predict'' \<mapsto> optional JsNum (maxTokens cfg),
                ''top_p'' \<mapsto> optional JsNum (topP cfg),
                ''stop'' \<mapsto> optional (\<lambda>ss. JsArr (map JsStr ss)) (stopSequences cfg)]
               ++ orEmpty (options cfg)),
      ''keep_alive'' \<mapsto> optional keepAliveValue (keepAlive cfg),
      ''tools'' \<mapsto>
        optional (\<lambda>specs. JsArr (map formatTool specs))
          (case opts of None \<Rightarrow> None | Some os \<Rightarrow> toolSpecs os)]
     ++ orEmpty (params cfg)"

section \<open>The stream translator\<close>

text \<open>
  A chunk of the Ollama response, with the fields the translator reads; a field that
  may be \<^verbatim>\<open>undefined\<close> is an \<open>option\<close>. The fields of a tool call are
  \<^verbatim>\<open>tc.function.name\<close> and \<^verbatim>\<open>tc.function.arguments\<close>, and \<open>chunk_done\<close> is \<^verbatim>\<open>chunk.done\<close>
  (\<open>function\<close> and \<open>done\<close> are keywords of the theory language). The token counts are
  natural numbers.
\<close>

record tool_call =
  function_name :: string
  function_arguments :: json

record chat_message =
  message_content :: "string option"
  tool_calls :: "tool_call list option"

record chunk =
  chunk_message :: "chat_message option"
  chunk_done :: bool
  prompt_eval_count :: "nat option"
  eval_count :: "nat option"

text \<open>The events of the SDK that the translator yields.\<close>

datatype delta = TextDelta string | ToolUseInputDelta string

datatype stop_reason = ToolUse | EndTurn

record usage =
  inputTokens :: nat
  outputTokens :: nat
  totalTokens :: nat

text \<open>\<open>ModelContentBlockStartEvent toolUseId name\<close> is a start of kind \<^verbatim>\<open>toolUseStart\<close>.\<close>

datatype event =
    ModelMessageStartEvent string
  | ModelContentBlockStartEvent string string
  | ModelContentBlockDeltaEvent delta
  | ModelContentBlockStopEvent
  | ModelMetadataEvent usage
  | ModelMessageStopEvent stop_reason

text \<open>
  What the transport does with the request, seen from the generator:
  \<^verbatim>\<open>client.chat\<close> rejects, or it gives a response whose iteration delivers some chunks
  and then ends or raises. The chunks are those delivered until then, a finite list; of
  a response that has not ended yet, the chunks delivered so far give the events yielded
  so far, since the loop handles the chunks one after the other.
\<close>

datatype 'e ending = Completed | Raised 'e

datatype 'e chat_result = ChatRejected 'e | ChatStream "chunk list" "'e ending"

text \<open>
  The state carried through the loop over the chunks: the flag \<^verbatim>\<open>toolRequested\<close>, and
  the number of identifiers drawn so far.
\<close>

record loop_state =
  toolRequested :: bool
  drawn :: nat

text \<open>
  \<^verbatim>\<open>n || 0\<close> on a count that may be \<^verbatim>\<open>undefined\<close>: a count other than 0 is truthy and
  is the value; 0 and \<^verbatim>\<open>undefined\<close> are falsy and give 0.
\<close>

definition orZero :: "nat option \<Rightarrow> nat" where
  "orZero n = (case n of None \<Rightarrow> 0 | Some k \<Rightarrow> k)"

text \<open>The loop over the tool calls of a chunk, with its three yields.\<close>

fun toolCallEvents :: "runtime \<Rightarrow> tool_call list \<Rightarrow> loop_state \<Rightarrow> event list \<times> loop_state" where
  "toolCallEvents rt [] st = ([], st)"
| "toolCallEvents rt (tc # tcs) st =
     (let started = ModelContentBlockStartEvent
                      (''call_'' @ random_suffix rt (drawn st)) (function_name tc);
          input = ModelContentBlockDeltaEvent
                    (ToolUseInputDelta (JSON_stringify rt (function_arguments tc)));
          (later, st') = toolCallEvents rt tcs \<lparr>toolRequested = True, drawn = Suc (drawn st)\<rparr>
      in (started # input # ModelContentBlockStopEvent # later, st'))"

text \<open>\<^verbatim>\<open>if (chunk.message?.content)\<close>: a string is truthy when it is not empty.\<close>

definition textEvents :: "chunk \<Rightarrow> event list" where
  "textEvents c =
     (case chunk_message c of
        None \<Rightarrow> []
      | Some m \<Rightarrow>
          (case message_content m of
             None \<Rightarrow> []
           | Some t \<Rightarrow> if t = [] then [] else [ModelContentBlockDeltaEvent (TextDelta t)]))"

text \<open>\<^verbatim>\<open>chunk.message?.tool_calls\<close>, \<open>None\<close> when it is \<^verbatim>\<open>undefined\<close>.\<close>

definition chunkToolCalls :: "chunk \<Rightarrow> tool_call list option" where
  "chunkToolCalls c = (case chunk_message c of None \<Rightarrow> None | Some m \<Rightarrow> tool_calls m)"

text \<open>\<^verbatim>\<open>if (chunk.prompt_eval_count !== undefined) { yield ... }\<close>\<close>

definition metadataEvents :: "chunk \<Rightarrow> event list" where
  "metadataEvents c =
     (case prompt_eval_count c of
        None \<Rightarrow> []
      | Some p \<Rightarrow>
          [ModelMetadataEvent
             \<lparr>inputTokens = p,
              outputTokens = orZero (eval_count c),
              totalTokens = orZero (prompt_eval_count c) + orZero (eval_count c)\<rparr>])"

text \<open>\<^verbatim>\<open>if (chunk.done) { ... }\<close>, given the flag as it stands after the chunk's tool calls.\<close>

definition doneEvents :: "chunk \<Rightarrow> bool \<Rightarrow> event list" where
  "doneEvents c requested =
     (if chunk_done c
      then metadataEvents c @ [ModelMessageStopEvent (if requested then ToolUse else EndTurn)]
      else [])"

text \<open>The body of the loop over the chunks.\<close>

definition chunkEvents :: "runtime \<Rightarrow> chunk \<Rightarrow> loop_state \<Rightarrow> event list \<times> loop_state" where
  "chunkEvents rt c st =
     (let (calls, st') = (case chunkToolCalls c of
                            None \<Rightarrow> ([], st)
                          | Some tcs \<Rightarrow> toolCallEvents rt tcs st)
      in (textEvents c @ calls @ doneEvents c (toolRequested st'), st'))"

fun chunkLoop :: "runtime \<Rightarrow> chunk list \<Rightarrow> loop_state \<Rightarrow> event list \<times> loop_state" where
  "chunkLoop rt [] st = ([], st)"
| "chunkLoop rt (c # cs) st =
     (let (now, st') = chunkEvents rt c st;
          (later, st'') = chunkLoop rt cs st'
      in (now @ later, st''))"

text \<open>
  One full run of the generator \<^verbatim>\<open>stream\<close>, every event pulled: the request handed to
  \<^verbatim>\<open>client.chat\<close>, the events yielded in order, the error thrown to the caller if any,
  and the calls of \<^verbatim>\<open>logger.error\<close> with their arguments.
\<close>

record 'e outcome =
  request :: js_object
  events :: "event list"
  thrown :: "'e option"
  logged :: "(string \<times> 'e) list"

definition stream ::
  "runtime \<Rightarrow> config \<Rightarrow> message list \<Rightarrow> stream_options option \<Rightarrow> 'e chat_result \<Rightarrow> 'e outcome" where
  "stream rt cfg messages opts response =
     (let req = formatRequest rt cfg messages opts;
          started = ModelMessageStartEvent ''assistant''
      in case response of
           ChatRejected err \<Rightarrow>
             \<lparr>request = req, events = [started], thrown = Some err,
              logged = [(''Ollama Stream Error:'', err)]\<rparr>
         | ChatStream chunks ending \<Rightarrow>
             (let (evs, st) = chunkLoop rt chunks \<lparr>toolRequested = False, drawn = 0\<rparr>
              in case ending of
                   Completed \<Rightarrow>
                     \<lparr>request = req, events = started # evs, thrown = None, logged = []\<rparr>
                 | Raised err \<Rightarrow>
                     \<lparr>request = req, events = started # evs, thrown = Some err,
                      logged = [(''Ollama Stream Error:'', err)]\<rparr>))"

section \<open>Notions used to state the properties\<close>

fun isMessageStart :: "event \<Rightarrow> bool" where
  "isMessageStart (ModelMessageStartEvent r) = True"
| "isMessageStart e = False"

fun isMessageStop :: "event \<Rightarrow> bool" where
  "isMessageStop (ModelMessageStopEvent r) = True"
| "isMessageStop e = False"

fun isMetadata :: "event \<Rightarrow> bool" where
  "isMetadata (ModelMetadataEvent u) = True"
| "isMetadata e = False"

text \<open>A chunk carries at least one tool-call descriptor.\<close>

definition hasToolCall :: "chunk \<Rightarrow> bool" where
  "hasToolCall c = (case chunkToolCalls c of None \<Rightarrow> False | Some tcs \<Rightarrow> tcs \<noteq> [])"

text \<open>The number of tool-call descriptors in a sequence of chunks.\<close>

definition callCount :: "chunk list \<Rightarrow> nat" where
  "callCount cs =
     sum_list (map (\<lambda>c. case chunkToolCalls c of None \<Rightarrow> 0 | Some tcs \<Rightarrow> length tcs) cs)"

text \<open>
  The three events of one tool call, its identifier made from the \<open>k\<close>-th draw.
\<close>

definition toolUseBlock :: "runtime \<Rightarrow> nat \<Rightarrow> tool_call \<Rightarrow> event list" where
  "toolUseBlock rt k tc =
     [ModelContentBlockStartEvent (''call_'' @ random_suffix rt k) (function_name tc),
      ModelContentBlockDeltaEvent (ToolUseInputDelta (JSON_stringify rt (function_arguments tc))),
      ModelContentBlockStopEvent]"

text \<open>
  Tool-call blocks are closed and not interleaved: every content-block-start is followed
  at once by one tool-input delta and one content-block-stop, and neither a tool-input
  delta nor a content-block-stop stands anywhere else.
\<close>

fun toolBlocksClosed :: "event list \<Rightarrow> bool" where
  "toolBlocksClosed [] = True"
| "toolBlocksClosed (ModelContentBlockStartEvent i n
      # ModelContentBlockDeltaEvent (ToolUseInputDelta a) # ModelContentBlockStopEvent # es) =
     toolBlocksClosed es"
| "toolBlocksClosed (ModelContentBlockStartEvent i n # es) = False"
| "toolBlocksClosed (ModelContentBlockDeltaEvent (ToolUseInputDelta a) # es) = False"
| "toolBlocksClosed (ModelContentBlockStopEvent # es) = False"
| "toolBlocksClosed (e # es) = toolBlocksClosed es"

text \<open>A conversation with the tool-use identifiers of its blocks erased.\<close>

fun eraseBlockId :: "content_block \<Rightarrow> content_block" where
  "eraseBlockId (ToolUseBlock nm toolUseId input) = ToolUseBlock nm [] input"
| "eraseBlockId (ToolResultBlock toolUseId results) = ToolResultBlock [] results"
| "eraseBlockId b = b"

definition eraseIds :: "message \<Rightarrow> message" where
  "eraseIds msg = msg\<lparr>content := map eraseBlockId (content msg)\<rparr>"

section \<open>A concrete runtime and sample inputs\<close>

text \<open>
  A serializer for the JSON values above, after \<^verbatim>\<open>JSON.stringify\<close> without an indent,
  for strings of printable characters. It and the sample inputs below serve where a
  property is evaluated at a concrete input; no general theorem depends on how a value
  is serialized or which identifiers are drawn.
\<close>

fun quoteChar :: "char \<Rightarrow> string" where
  "quoteChar c =
     (if c = CHR 0x22 then [CHR 0x5C, CHR 0x22]
      else if c = CHR 0x5C then [CHR 0x5C, CHR 0x5C]
      else [c])"

fun show_json :: "json \<Rightarrow> string" where
  "show_json JNull = ''null''"
| "show_json (JBool b) = (if b then ''true'' else ''false'')"
| "show_json (JNum n) = numberString n"
| "show_json (JStr s) = [CHR 0x22] @ concat (map quoteChar s) @ [CHR 0x22]"
| "show_json (JArr xs) = ''['' @ commaJoin (map (\<lambda>x. show_json x) xs) @ '']''"
| "show_json (JObj kvs) =
     ''{'' @ commaJoin (map (\<lambda>(k, v). show_json (JStr k) @ '':'' @ show_json v) kvs) @ ''}''"

definition node :: runtime where
  "node = \<lparr>JSON_stringify = show_json,
           random_suffix = (\<lambda>k. if k = 0 then ''k3x9q2a'' else ''p0m'' @ digits k)\<rparr>"

text \<open>The configuration of \<^verbatim>\<open>src/agent.ts\<close>: \<^verbatim>\<open>new OllamaModel({modelId: 'llama3.2'})\<close>.\<close>

definition llama :: config where
  "llama = \<lparr>modelId = ''llama3.2'', host = None, temperature = None, maxTokens = None,
            topP = None, stopSequences = None, keepAlive = None, options = None,
            params = None\<rparr>"

definition letterCounter :: tool_call where
  "letterCounter =
     \<lparr>function_name = ''letter_counter'',
      function_arguments = JObj [(''word'', JStr ''strawberry''), (''letter'', JStr ''r'')]\<rparr>"

text \<open>Chunks: a text delta, a tool call, and terminal chunks with and without counts.\<close>

definition textChunk :: "string \<Rightarrow> chunk" where
  "textChunk t =
     \<lparr>chunk_message = Some \<lparr>message_content = Some t, tool_calls = None\<rparr>,
      chunk_done = False, prompt_eval_count = None, eval_count = None\<rparr>"

definition callChunk :: "bool \<Rightarrow> chunk" where
  "callChunk d =
     \<lparr>chunk_message = Some \<lparr>message_content = Some [], tool_calls = Some [letterCounter]\<rparr>,
      chunk_done = d, prompt_eval_count = None, eval_count = None\<rparr>"

definition doneChunk :: "nat option \<Rightarrow> nat option \<Rightarrow> chunk" where
  "doneChunk p q =
     \<lparr>chunk_message = Some \<lparr>message_content = Some [], tool_calls = None\<rparr>,
      chunk_done = True, prompt_eval_count = p, eval_count = q\<rparr>"

section \<open>Facts about the formatter\<close>

text \<open>
  Each loop of the formatter pushes onto the end of \<^verbatim>\<open>formattedMessages\<close>, so what a
  block or a message contributes does not depend on what was pushed before it.
\<close>

lemma fold_pushToolResult:
  "fold (pushToolResult rt) results acc =
     acc @ map (\<lambda>result. JsObj [''role'' \<mapsto> JsStr ''tool'',
                 ''content'' \<mapsto> JsStr (case result of
                                          JsonBlock j \<Rightarrow> JSON_stringify rt j
                                        | ResultTextBlock t \<Rightarrow> t)]) results"
  by (induction results arbitrary: acc) (simp_all add: pushToolResult_def)

lemma pushBlock_append: "pushBlock rt r b acc = acc @ pushBlock rt r b []"
  by (cases "(rt, r, b, acc)" rule: pushBlock.cases) (simp_all add: fold_pushToolResult)

lemma fold_pushBlock_append:
  "fold (pushBlock rt r) bs acc = acc @ fold (pushBlock rt r) bs []"
proof (induction bs arbitrary: acc)
  case Nil
  show ?case by simp
next
  case (Cons b bs)
  have "fold (pushBlock rt r) (b # bs) acc = fold (pushBlock rt r) bs (pushBlock rt r b acc)"
    by simp
  also have "\<dots> = pushBlock rt r b acc @ fold (pushBlock rt r) bs []"
    by (rule Cons.IH)
  also have "\<dots> = acc @ pushBlock rt r b [] @ fold (pushBlock rt r) bs []"
    using pushBlock_append [of rt r b acc] by simp
  also have "pushBlock rt r b [] @ fold (pushBlock rt r) bs [] = fold (pushBlock rt r) (b # bs) []"
    using Cons.IH [of "pushBlock rt r b []"] by simp
  finally show ?case .
qed

lemma pushMessage_append: "pushMessage rt msg acc = acc @ pushMessage rt msg []"
  unfolding pushMessage_def by (rule fold_pushBlock_append)

lemma fold_pushMessage_append:
  "fold (pushMessage rt) ms acc = acc @ fold (pushMessage rt) ms []"
proof (induction ms arbitrary: acc)
  case Nil
  show ?case by simp
next
  case (Cons m ms)
  have "fold (pushMessage rt) (m # ms) acc = pushMessage rt m acc @ fold (pushMessage rt) ms []"
    using Cons.IH [of "pushMessage rt m acc"] by simp
  also have "\<dots> = acc @ pushMessage rt m [] @ fold (pushMessage rt) ms []"
    using pushMessage_append [of rt m acc] by simp
  also have "pushMessage rt m [] @ fold (pushMessage rt) ms [] = fold (pushMessage rt) (m # ms) []"
    using Cons.IH [of "pushMessage rt m []"] by simp
  finally show ?case .
qed

lemma formatMessages_None: "formatMessages rt ms None = fold (pushMessage rt) ms []"
  by (simp add: formatMessages_def)

lemma formatMessages_split:
  "formatMessages rt (ms1 @ ms2) opts = formatMessages rt ms1 opts @ formatMessages rt ms2 None"
proof -
  let ?init = "handleSystemPrompt (case opts of None \<Rightarrow> None | Some os \<Rightarrow> systemPrompt os) []"
  have "formatMessages rt (ms1 @ ms2) opts = fold (pushMessage rt) ms2 (fold (pushMessage rt) ms1 ?init)"
    by (simp add: formatMessages_def)
  also have "\<dots> = fold (pushMessage rt) ms1 ?init @ fold (pushMessage rt) ms2 []"
    by (rule fold_pushMessage_append)
  finally show ?thesis
    by (simp add: formatMessages_def)
qed

lemma pushMessage_split:
  "pushMessage rt \<lparr>role = r, content = bs1 @ bs2\<rparr> [] =
     pushMessage rt \<lparr>role = r, content = bs1\<rparr> [] @ pushMessage rt \<lparr>role = r, content = bs2\<rparr> []"
proof -
  have "fold (pushBlock rt r) bs2 (fold (pushBlock rt r) bs1 []) =
          fold (pushBlock rt r) bs1 [] @ fold (pushBlock rt r) bs2 []"
    by (rule fold_pushBlock_append)
  then show ?thesis
    by (simp add: pushMessage_def)
qed

lemma formatMessages_Cons_None:
  "formatMessages rt (m # ms) None = pushMessage rt m [] @ formatMessages rt ms None"
  using formatMessages_split [of rt "[m]" ms None] by (simp add: formatMessages_None)


text \<open>
  What the request holds under a property name: the value of the params bag if the bag
  has the property, and the mapped field otherwise.
\<close>

lemma request_lookup:
  "formatRequest rt cfg messages opts k =
     (case orEmpty (params cfg) k of
        Some v \<Rightarrow> Some v
      | None \<Rightarrow>
          [''model'' \<mapsto> JsStr (modelId cfg),
           ''messages'' \<mapsto> JsArr (formatMessages rt messages opts),
           ''stream'' \<mapsto> JsBool True,
           ''options'' \<mapsto>
             JsObj ([''temperature'' \<mapsto> optional JsNum (temperature cfg),
                     ''num_predict'' \<mapsto> optional JsNum (maxTokens cfg),
                     ''top_p'' \<mapsto> optional JsNum (topP cfg),
                     ''stop'' \<mapsto> optional (\<lambda>ss. JsArr (map JsStr ss)) (stopSequences cfg)]
                    ++ orEmpty (options cfg)),
           ''keep_alive'' \<mapsto> optional keepAliveValue (keepAlive cfg),
           ''tools'' \<mapsto>
             optional (\<lambda>specs. JsArr (map formatTool specs))
               (case opts of None \<Rightarrow> None | Some os \<Rightarrow> toolSpecs os)] k)"
  unfolding formatRequest_def map_add_def by (simp split: option.split)

lemma request_stream_default:
  "orEmpty (params cfg) ''stream'' = None \<Longrightarrow>
     formatRequest rt cfg messages opts ''stream'' = Some (JsBool True)"
  by (simp add: request_lookup)

lemma request_messages_default:
  "orEmpty (params cfg) ''messages'' = None \<Longrightarrow>
     formatRequest rt cfg messages opts ''messages'' = Some (JsArr (formatMessages rt messages opts))"
  by (simp add: request_lookup)

lemma request_override:
  "orEmpty (params cfg) k = Some v \<Longrightarrow> formatRequest rt cfg messages opts k = Some v"
  by (simp add: request_lookup)

text \<open>
  The formatter reads neither the tool-use identifier of a block nor the random source.
\<close>

lemma pushToolResult_runtime:
  assumes "JSON_stringify rt' = JSON_stringify rt"
  shows "pushToolResult rt' = pushToolResult rt"
  by (intro ext) (simp add: pushToolResult_def assms split: tool_result_content.split)

lemma pushBlock_erased:
  assumes "JSON_stringify rt' = JSON_stringify rt"
  shows "pushBlock rt' r (eraseBlockId b) acc = pushBlock rt r b acc"
  using pushToolResult_runtime [OF assms]
  by (cases "(rt, r, b, acc)" rule: pushBlock.cases) simp_all

lemma fold_pushBlock_erased:
  assumes "JSON_stringify rt' = JSON_stringify rt"
  shows "fold (pushBlock rt' r) (map eraseBlockId bs) acc = fold (pushBlock rt r) bs acc"
  by (induction bs arbitrary: acc) (simp_all add: pushBlock_erased [OF assms])

lemma pushMessage_erased:
  assumes "JSON_stringify rt' = JSON_stringify rt"
  shows "pushMessage rt' (eraseIds m) acc = pushMessage rt m acc"
  by (simp add: pushMessage_def eraseIds_def fold_pushBlock_erased [OF assms])

lemma fold_pushMessage_erased:
  assumes "JSON_stringify rt' = JSON_stringify rt"
  shows "fold (pushMessage rt') (map eraseIds ms) acc = fold (pushMessage rt) ms acc"
  by (induction ms arbitrary: acc) (simp_all add: pushMessage_erased [OF assms])

lemma formatMessages_erased:
  assumes "JSON_stringify rt' = JSON_stringify rt"
  shows "formatMessages rt' (map eraseIds ms) opts = formatMessages rt ms opts"
  by (simp add: formatMessages_def fold_pushMessage_erased [OF assms])

lemma request_of_stream: "request (stream rt cfg messages opts response) = formatRequest rt cfg messages opts"
  by (simp add: stream_def Let_def split: chat_result.split ending.split prod.split)

text \<open>
  What a tool-result block gives to the formatted messages, wherever it stands.
\<close>

lemma formatMessages_tool_result:
  "formatMessages rt
      (before @ \<lparr>role = r, content = bs1 @ ToolResultBlock toolUseId results # bs2\<rparr> # after) opts =
     formatMessages rt (before @ [\<lparr>role = r, content = bs1\<rparr>]) opts
     @ map (\<lambda>result. JsObj [''role'' \<mapsto> JsStr ''tool'',
              ''content'' \<mapsto> JsStr (case result of
                                       JsonBlock j \<Rightarrow> JSON_stringify rt j
                                     | ResultTextBlock t \<Rightarrow> t)]) results
     @ formatMessages rt (\<lparr>role = r, content = bs2\<rparr> # after) None"
proof -
  let ?tool = "map (\<lambda>result. JsObj [''role'' \<mapsto> JsStr ''tool'',
              ''content'' \<mapsto> JsStr (case result of
                                       JsonBlock j \<Rightarrow> JSON_stringify rt j
                                     | ResultTextBlock t \<Rightarrow> t)]) results"
  let ?m = "\<lparr>role = r, content = bs1 @ ToolResultBlock toolUseId results # bs2\<rparr>"
  have block: "pushMessage rt \<lparr>role = r, content = [ToolResultBlock toolUseId results]\<rparr> [] = ?tool"
    by (simp add: pushMessage_def fold_pushToolResult)
  have "pushMessage rt ?m [] =
          pushMessage rt \<lparr>role = r, content = bs1\<rparr> []
          @ pushMessage rt \<lparr>role = r, content = [ToolResultBlock toolUseId results] @ bs2\<rparr> []"
    using pushMessage_split [of rt r bs1 "ToolResultBlock toolUseId results # bs2"] by simp
  also have "pushMessage rt \<lparr>role = r, content = [ToolResultBlock toolUseId results] @ bs2\<rparr> [] =
          ?tool @ pushMessage rt \<lparr>role = r, content = bs2\<rparr> []"
    unfolding pushMessage_split block ..
  finally have m: "pushMessage rt ?m [] =
      pushMessage rt \<lparr>role = r, content = bs1\<rparr> [] @ ?tool @ pushMessage rt \<lparr>role = r, content = bs2\<rparr> []" .
  have "formatMessages rt (before @ ?m # after) opts =
          formatMessages rt before opts @ pushMessage rt ?m [] @ formatMessages rt after None"
    by (simp only: formatMessages_split formatMessages_Cons_None)
  also have "\<dots> = (formatMessages rt before opts @ pushMessage rt \<lparr>role = r, content = bs1\<rparr> [])
          @ ?tool @ (pushMessage rt \<lparr>role = r, content = bs2\<rparr> [] @ formatMessages rt after None)"
    unfolding m by simp
  also have "formatMessages rt before opts @ pushMessage rt \<lparr>role = r, content = bs1\<rparr> [] =
          formatMessages rt (before @ [\<lparr>role = r, content = bs1\<rparr>]) opts"
    by (simp add: formatMessages_split formatMessages_Cons_None formatMessages_None)
  also have "pushMessage rt \<lparr>role = r, content = bs2\<rparr> [] @ formatMessages rt after None =
          formatMessages rt (\<lparr>role = r, content = bs2\<rparr> # after) None"
    by (simp only: formatMessages_Cons_None)
  finally show ?thesis .
qed

section \<open>Facts about the translator\<close>

text \<open>
  The loops of the translator, in closed form: what they yield and the state they leave.
\<close>

lemma toolCallEvents_eq:
  "toolCallEvents rt tcs st =
     (concat (map (\<lambda>(k, tc). toolUseBlock rt k tc) (enumerate (drawn st) tcs)),
      if tcs = [] then st else \<lparr>toolRequested = True, drawn = drawn st + length tcs\<rparr>)"
proof (induction tcs arbitrary: st)
  case Nil
  show ?case by simp
next
  case (Cons tc tcs)
  show ?case
    by (simp add: Cons.IH toolUseBlock_def)
qed

lemma chunkEvents_eq:
  "chunkEvents rt c st =
     (textEvents c
      @ (case chunkToolCalls c of
           None \<Rightarrow> []
         | Some tcs \<Rightarrow> concat (map (\<lambda>(k, tc). toolUseBlock rt k tc) (enumerate (drawn st) tcs)))
      @ doneEvents c (toolRequested st \<or> hasToolCall c),
      \<lparr>toolRequested = toolRequested st \<or> hasToolCall c, drawn = drawn st + callCount [c]\<rparr>)"
  by (cases "chunkToolCalls c")
    (simp_all add: chunkEvents_def toolCallEvents_eq hasToolCall_def callCount_def)

lemma chunkLoop_Cons:
  "fst (chunkLoop rt (c # cs) st) =
     fst (chunkEvents rt c st) @ fst (chunkLoop rt cs (snd (chunkEvents rt c st)))"
  by (simp split: prod.split)

lemma chunkLoop_Cons_state:
  "snd (chunkLoop rt (c # cs) st) = snd (chunkLoop rt cs (snd (chunkEvents rt c st)))"
  by (simp split: prod.split)

lemma chunkLoop_state:
  "snd (chunkLoop rt cs st) =
     \<lparr>toolRequested = toolRequested st \<or> list_ex hasToolCall cs, drawn = drawn st + callCount cs\<rparr>"
proof (induction cs arbitrary: st)
  case Nil
  show ?case by (simp add: callCount_def)
next
  case (Cons c cs)
  show ?case
    by (simp add: chunkLoop_Cons_state chunkEvents_eq Cons.IH callCount_def
        del: chunkLoop.simps)
qed

lemma chunkLoop_append:
  "fst (chunkLoop rt (xs @ ys) st) =
     fst (chunkLoop rt xs st) @ fst (chunkLoop rt ys (snd (chunkLoop rt xs st)))"
proof (induction xs arbitrary: st)
  case Nil
  show ?case by simp
next
  case (Cons x xs)
  show ?case
    by (simp add: chunkLoop_Cons chunkLoop_Cons_state Cons.IH del: chunkLoop.simps)
qed

lemma stream_events:
  "events (stream rt cfg messages opts (ChatStream cs ending)) =
     ModelMessageStartEvent ''assistant'' # fst (chunkLoop rt cs \<lparr>toolRequested = False, drawn = 0\<rparr>)"
  by (simp add: stream_def Let_def split: ending.split prod.split)

lemma callCount_append: "callCount (xs @ ys) = callCount xs + callCount ys"
  by (simp add: callCount_def)

lemma textEvents_filter:
  "filter isMessageStart (textEvents c) = []"
  "filter isMessageStop (textEvents c) = []"
  "filter isMetadata (textEvents c) = []"
  by (simp_all add: textEvents_def split: option.split)

lemma toolUseBlocks_filter:
  "filter isMessageStart (concat (map (\<lambda>(k, tc). toolUseBlock rt k tc) kts)) = []"
  "filter isMessageStop (concat (map (\<lambda>(k, tc). toolUseBlock rt k tc) kts)) = []"
  "filter isMetadata (concat (map (\<lambda>(k, tc). toolUseBlock rt k tc) kts)) = []"
  by (induction kts) (auto simp add: toolUseBlock_def)

lemma metadataEvents_eq:
  "metadataEvents c =
     (case prompt_eval_count c of
        None \<Rightarrow> []
      | Some p \<Rightarrow>
          [ModelMetadataEvent
             \<lparr>inputTokens = p,
              outputTokens = (case eval_count c of None \<Rightarrow> 0 | Some q \<Rightarrow> q),
              totalTokens = p + (case eval_count c of None \<Rightarrow> 0 | Some q \<Rightarrow> q)\<rparr>])"
  by (simp add: metadataEvents_def orZero_def split: option.split)

lemma metadataEvents_filter:
  "filter isMessageStart (metadataEvents c) = []"
  "filter isMessageStop (metadataEvents c) = []"
  "filter isMetadata (metadataEvents c) = metadataEvents c"
  by (simp_all add: metadataEvents_def split: option.split)

lemma doneEvents_filter:
  "filter isMessageStart (doneEvents c b) = []"
  "filter isMessageStop (doneEvents c b) =
     (if chunk_done c then [ModelMessageStopEvent (if b then ToolUse else EndTurn)] else [])"
  "filter isMetadata (doneEvents c b) = (if chunk_done c then metadataEvents c else [])"
  by (simp_all add: doneEvents_def metadataEvents_filter)

lemma chunkEvents_filter:
  "filter isMessageStart (fst (chunkEvents rt c st)) = []"
  "filter isMessageStop (fst (chunkEvents rt c st)) =
     (if chunk_done c
      then [ModelMessageStopEvent (if toolRequested st \<or> hasToolCall c then ToolUse else EndTurn)]
      else [])"
  "filter isMetadata (fst (chunkEvents rt c st)) = (if chunk_done c then metadataEvents c else [])"
  by (simp_all add: chunkEvents_eq textEvents_filter toolUseBlocks_filter doneEvents_filter
      split: option.split)

lemma chunkLoop_no_start: "filter isMessageStart (fst (chunkLoop rt cs st)) = []"
  by (induction cs arbitrary: st)
    (simp_all add: chunkLoop_Cons chunkEvents_filter del: chunkLoop.simps(2))

lemma chunkLoop_not_done:
  assumes "\<forall>c \<in> set cs. \<not> chunk_done c"
  shows "filter isMessageStop (fst (chunkLoop rt cs st)) = []"
    and "filter isMetadata (fst (chunkLoop rt cs st)) = []"
  using assms
  by (induction cs arbitrary: st)
    (simp_all add: chunkLoop_Cons chunkEvents_filter del: chunkLoop.simps(2))

text \<open>
  The message-stop events of a run, one for each chunk marked done.
\<close>

lemma chunkLoop_stops:
  "filter isMessageStop (fst (chunkLoop rt chunks \<lparr>toolRequested = False, drawn = 0\<rparr>)) =
     map (\<lambda>n. ModelMessageStopEvent
                (if list_ex hasToolCall (take (Suc n) chunks) then ToolUse else EndTurn))
       (filter (\<lambda>n. chunk_done (chunks ! n)) [0..<length chunks])"
proof (induction chunks rule: rev_induct)
  case Nil
  show ?case by simp
next
  case (snoc c cs)
  let ?init = "\<lparr>toolRequested = False, drawn = 0\<rparr>"
  let ?reason = "\<lambda>xs n. ModelMessageStopEvent
                (if list_ex hasToolCall (take (Suc n) xs) then ToolUse else EndTurn)"
  have idx: "filter (\<lambda>n. chunk_done ((cs @ [c]) ! n)) [0..<length cs] =
      filter (\<lambda>n. chunk_done (cs ! n)) [0..<length cs]"
    by (rule filter_cong) (simp_all add: nth_append)
  have earlier: "map (?reason (cs @ [c])) (filter (\<lambda>n. chunk_done (cs ! n)) [0..<length cs]) =
      map (?reason cs) (filter (\<lambda>n. chunk_done (cs ! n)) [0..<length cs])"
    by (rule map_cong) simp_all
  have "filter isMessageStop (fst (chunkLoop rt (cs @ [c]) ?init)) =
      filter isMessageStop (fst (chunkLoop rt cs ?init))
      @ filter isMessageStop (fst (chunkEvents rt c (snd (chunkLoop rt cs ?init))))"
    by (simp add: chunkLoop_append chunkLoop_Cons del: chunkLoop.simps(2))
  also have "\<dots> = map (?reason cs) (filter (\<lambda>n. chunk_done (cs ! n)) [0..<length cs])
      @ (if chunk_done c
         then [ModelMessageStopEvent (if list_ex hasToolCall (cs @ [c]) then ToolUse else EndTurn)]
         else [])"
    by (simp add: snoc.IH chunkEvents_filter chunkLoop_state)
  also have "\<dots> = map (?reason (cs @ [c])) (filter (\<lambda>n. chunk_done ((cs @ [c]) ! n)) [0..<length (cs @ [c])])"
    using idx earlier by simp
  finally show ?case .
qed

text \<open>
  Every piece the translator yields leaves the tool-call blocks closed.
\<close>

lemma toolBlocksClosed_append:
  "toolBlocksClosed xs \<Longrightarrow> toolBlocksClosed (xs @ ys) = toolBlocksClosed ys"
  by (induction xs rule: toolBlocksClosed.induct) simp_all

lemma toolBlocksClosed_appendI:
  "toolBlocksClosed xs \<Longrightarrow> toolBlocksClosed ys \<Longrightarrow> toolBlocksClosed (xs @ ys)"
  by (simp add: toolBlocksClosed_append)

lemma toolUseBlocks_closed:
  "toolBlocksClosed (concat (map (\<lambda>(k, tc). toolUseBlock rt k tc) kts))"
  by (induction kts) (auto simp add: toolUseBlock_def)

lemma textEvents_closed: "toolBlocksClosed (textEvents c)"
  by (simp add: textEvents_def split: option.split)

lemma doneEvents_closed: "toolBlocksClosed (doneEvents c b)"
  by (simp add: doneEvents_def metadataEvents_def split: option.split)

lemma chunkEvents_closed: "toolBlocksClosed (fst (chunkEvents rt c st))"
  by (simp add: chunkEvents_eq toolBlocksClosed_appendI textEvents_closed toolUseBlocks_closed
      doneEvents_closed split: option.split)

lemma chunkLoop_closed: "toolBlocksClosed (fst (chunkLoop rt cs st))"
  by (induction cs arbitrary: st)
    (simp_all add: chunkLoop_Cons toolBlocksClosed_appendI chunkEvents_closed
      del: chunkLoop.simps(2))

section \<open>Properties of the request formatter\<close>

text \<open>
  Claim C3, as amended. The request has \<^verbatim>\<open>stream\<close> equal to \<^verbatim>\<open>true\<close> whenever the params
  bag has no property \<^verbatim>\<open>stream\<close>; and for every property of the params bag, \<^verbatim>\<open>model\<close>,
  \<^verbatim>\<open>messages\<close> and \<^verbatim>\<open>stream\<close> among them, the request holds the value of the bag.
\<close>

theorem params_merged_last:
  "(orEmpty (params cfg) ''stream'' = None \<longrightarrow>
      formatRequest rt cfg messages opts ''stream'' = Some (JsBool True))
   \<and> (orEmpty (params cfg) k = Some v \<longrightarrow> formatRequest rt cfg messages opts k = Some v)"
  using request_stream_default [of cfg rt messages opts] request_override [of cfg k v rt messages opts]
  by blast

text \<open>At a config whose params bag sets \<^verbatim>\<open>model\<close> only.\<close>

theorem params_merged_last_witness:
  "formatRequest node (llama\<lparr>params := Some [''model'' \<mapsto> JsStr ''mistral'']\<rparr>) [] None ''stream''
     = Some (JsBool True)
   \<and> formatRequest node (llama\<lparr>params := Some [''model'' \<mapsto> JsStr ''mistral'']\<rparr>) [] None ''model''
     = Some (JsStr ''mistral'')"
  using params_merged_last [of "llama\<lparr>params := Some [''model'' \<mapsto> JsStr ''mistral'']\<rparr>"
      node "[]" None "''model''" "JsStr ''mistral''"]
  by (simp add: orEmpty_def)

text \<open>
  The claim as it was stated also has \<^verbatim>\<open>stream\<close> equal to \<^verbatim>\<open>true\<close> in every request. It
  is not, when the params bag sets \<^verbatim>\<open>stream\<close>: the bag is merged last.
\<close>

theorem stream_flag_overridden:
  "formatRequest node (llama\<lparr>params := Some [''stream'' \<mapsto> JsBool False]\<rparr>) [] None ''stream''
     = Some (JsBool False)
   \<and> formatRequest node (llama\<lparr>params := Some [''stream'' \<mapsto> JsBool False]\<rparr>) [] None ''stream''
     \<noteq> Some (JsBool True)"
  by (simp add: request_lookup orEmpty_def)

text \<open>
  Claim C6, as amended. When the params bag does not replace \<^verbatim>\<open>messages\<close>, a tool-result
  block with the result items \<open>results\<close>, wherever it stands in the conversation, gives
  the messages of the request exactly one message per item, in the order of the items,
  between what the formatter emits for everything before the block and what it emits for
  everything after it. Each of these messages has the role \<^verbatim>\<open>tool\<close>; its content is the
  serialized JSON of a structured item and the text of a text item.
\<close>

theorem tool_results_in_request:
  assumes "orEmpty (params cfg) ''messages'' = None"
  shows "formatRequest rt cfg
      (before @ \<lparr>role = r, content = bs1 @ ToolResultBlock toolUseId results # bs2\<rparr> # after) opts
      ''messages'' =
     Some (JsArr
       (formatMessages rt (before @ [\<lparr>role = r, content = bs1\<rparr>]) opts
        @ map (\<lambda>result. JsObj [''role'' \<mapsto> JsStr ''tool'',
                 ''content'' \<mapsto> JsStr (case result of
                                          JsonBlock j \<Rightarrow> JSON_stringify rt j
                                        | ResultTextBlock t \<Rightarrow> t)]) results
        @ formatMessages rt (\<lparr>role = r, content = bs2\<rparr> # after) None))"
proof -
  have "formatRequest rt cfg
      (before @ \<lparr>role = r, content = bs1 @ ToolResultBlock toolUseId results # bs2\<rparr> # after) opts
      ''messages'' =
     Some (JsArr (formatMessages rt
      (before @ \<lparr>role = r, content = bs1 @ ToolResultBlock toolUseId results # bs2\<rparr> # after) opts))"
    by (rule request_messages_default [OF assms])
  then show ?thesis
    by (simp only: formatMessages_tool_result)
qed

text \<open>
  At a message whose tool result has a structured item and a text item, between two
  text blocks.
\<close>

theorem tool_results_in_request_witness:
  "formatRequest node llama
      [\<lparr>role = ''user'',
        content = [TextBlock ''Counted.'',
                   ToolResultBlock ''call_k3x9q2a''
                     [JsonBlock (JObj [(''count'', JNum 3)]), ResultTextBlock ''three''],
                   TextBlock ''Thanks.'']\<rparr>] None ''messages'' =
     Some (JsArr
       [JsObj [''role'' \<mapsto> JsStr ''user'', ''content'' \<mapsto> JsStr ''Counted.''],
        JsObj [''role'' \<mapsto> JsStr ''tool'',
               ''content'' \<mapsto> JsStr (show_json (JObj [(''count'', JNum 3)]))],
        JsObj [''role'' \<mapsto> JsStr ''tool'', ''content'' \<mapsto> JsStr ''three''],
        JsObj [''role'' \<mapsto> JsStr ''user'', ''content'' \<mapsto> JsStr ''Thanks.'']])"
proof -
  have h: "orEmpty (params llama) ''messages'' = None"
    by (simp add: llama_def orEmpty_def)
  show ?thesis
    using tool_results_in_request [OF h, of node "[]" "''user''" "[TextBlock ''Counted.'']"
        "''call_k3x9q2a''" "[JsonBlock (JObj [(''count'', JNum 3)]), ResultTextBlock ''three'']"
        "[TextBlock ''Thanks.'']" "[]" None]
    by (simp add: formatMessages_def pushMessage_def node_def)
qed

text \<open>
  The claim as it was stated holds for every config. A params bag with \<^verbatim>\<open>messages\<close>
  replaces the formatted list, and the request then holds none of the tool messages.
\<close>

theorem tool_results_overridden:
  "formatRequest node (llama\<lparr>params := Some [''messages'' \<mapsto> JsArr []]\<rparr>)
      [\<lparr>role = ''user'',
        content = [ToolResultBlock ''call_k3x9q2a''
                     [JsonBlock (JObj [(''count'', JNum 3)]), ResultTextBlock ''three'']]\<rparr>]
      None ''messages'' =
     Some (JsArr [])"
  by (simp add: request_lookup orEmpty_def)




text \<open>
  Claim C9. The request is determined by the config, the options, the serializer and the
  conversation with its tool-use identifiers erased: two calls that agree on these build
  the same request, whatever the random source gives, whatever the transport answers,
  and whatever identifiers the blocks of the two conversations carry. So the formatter
  has no hidden randomness, and no tool-use identifier, generated or not, passes from a
  block into the request.
\<close>

theorem request_independent_of_ids:
  assumes "JSON_stringify rt' = JSON_stringify rt"
    and "map eraseIds messages' = map eraseIds messages"
  shows "formatRequest rt' cfg messages' opts = formatRequest rt cfg messages opts
    \<and> request (stream rt' cfg messages' opts response') = request (stream rt cfg messages opts response)"
proof -
  have "formatMessages rt' messages' opts = formatMessages rt' (map eraseIds messages') opts"
    by (rule formatMessages_erased [symmetric]) simp
  also have "\<dots> = formatMessages rt' (map eraseIds messages) opts"
    by (simp only: assms(2))
  also have "\<dots> = formatMessages rt messages opts"
    by (rule formatMessages_erased [OF assms(1)])
  finally have "formatRequest rt' cfg messages' opts = formatRequest rt cfg messages opts"
    by (simp add: formatRequest_def)
  then show ?thesis
    by (simp add: request_of_stream)
qed

text \<open>
  At two random sources and two conversations that differ in the identifiers only.
\<close>

theorem request_independent_of_ids_witness:
  "formatRequest (node\<lparr>random_suffix := \<lambda>k. ''zzzzzzz''\<rparr>) llama
      [\<lparr>role = ''assistant'',
        content = [ToolUseBlock ''letter_counter'' ''call_k3x9q2a'' (JObj [(''letter'', JStr ''r'')])]\<rparr>,
       \<lparr>role = ''user'', content = [ToolResultBlock ''call_k3x9q2a'' [ResultTextBlock ''3'']]\<rparr>] None =
    formatRequest node llama
      [\<lparr>role = ''assistant'',
        content = [ToolUseBlock ''letter_counter'' ''call_p0m1'' (JObj [(''letter'', JStr ''r'')])]\<rparr>,
       \<lparr>role = ''user'', content = [ToolResultBlock ''call_p0m1'' [ResultTextBlock ''3'']]\<rparr>] None"
proof -
  let ?ms' = "[\<lparr>role = ''assistant'',
        content = [ToolUseBlock ''letter_counter'' ''call_k3x9q2a'' (JObj [(''letter'', JStr ''r'')])]\<rparr>,
       \<lparr>role = ''user'', content = [ToolResultBlock ''call_k3x9q2a'' [ResultTextBlock ''3'']]\<rparr>]"
  let ?ms = "[\<lparr>role = ''assistant'',
        content = [ToolUseBlock ''letter_counter'' ''call_p0m1'' (JObj [(''letter'', JStr ''r'')])]\<rparr>,
       \<lparr>role = ''user'', content = [ToolResultBlock ''call_p0m1'' [ResultTextBlock ''3'']]\<rparr>]"
  have h1: "JSON_stringify (node\<lparr>random_suffix := \<lambda>k. ''zzzzzzz''\<rparr>) = JSON_stringify node"
    by simp
  have h2: "map eraseIds ?ms' = map eraseIds ?ms"
    by (simp add: eraseIds_def)
  show ?thesis
    by (rule conjunct1 [OF request_independent_of_ids [OF h1 h2]])
qed

text \<open>
  Claim C10. With the empty string as the system prompt the formatter prepends no system
  message: the formatted messages, and the whole request, are those of the same call
  without a system prompt, and the formatted messages are those of a call without
  options.
\<close>

theorem empty_prompt_ignored:
  "formatMessages rt messages (Some (os\<lparr>systemPrompt := Some (PromptString [])\<rparr>)) =
     formatMessages rt messages (Some (os\<lparr>systemPrompt := None\<rparr>))
   \<and> formatMessages rt messages (Some (os\<lparr>systemPrompt := Some (PromptString [])\<rparr>)) =
     formatMessages rt messages None
   \<and> formatRequest rt cfg messages (Some (os\<lparr>systemPrompt := Some (PromptString [])\<rparr>)) =
     formatRequest rt cfg messages (Some (os\<lparr>systemPrompt := None\<rparr>))"
  by (simp add: formatMessages_def formatRequest_def)

text \<open>At a conversation of one text message.\<close>

theorem empty_prompt_ignored_witness:
  "formatMessages node [\<lparr>role = ''user'', content = [TextBlock ''hi'']\<rparr>]
      (Some \<lparr>systemPrompt = Some (PromptString []), toolSpecs = None\<rparr>) =
     [JsObj [''role'' \<mapsto> JsStr ''user'', ''content'' \<mapsto> JsStr ''hi'']]"
  using empty_prompt_ignored [of node "[\<lparr>role = ''user'', content = [TextBlock ''hi'']\<rparr>]"
      "\<lparr>systemPrompt = None, toolSpecs = None\<rparr>" llama]
  by (simp add: formatMessages_def pushMessage_def)

section \<open>Properties of the stream translator\<close>

text \<open>
  Claim C1, as amended. For every response stream that the transport completes
  successfully and whose only done chunk is its last chunk, the event sequence is one
  message-start, then events that are neither a message-start nor a message-stop, then
  one message-stop: exactly one message-start, emitted first, and exactly one
  message-stop, emitted last.
\<close>

theorem one_start_one_stop:
  assumes "\<forall>c' \<in> set cs. \<not> chunk_done c'" and "chunk_done c"
  shows "\<exists>body reason.
           events (stream rt cfg messages opts (ChatStream (cs @ [c]) Completed)) =
             ModelMessageStartEvent ''assistant'' # body @ [ModelMessageStopEvent reason]
           \<and> filter isMessageStart body = []
           \<and> filter isMessageStop body = []"
proof -
  let ?st = "snd (chunkLoop rt cs \<lparr>toolRequested = False, drawn = 0\<rparr>)"
  let ?b = "toolRequested ?st \<or> hasToolCall c"
  let ?calls = "case chunkToolCalls c of
           None \<Rightarrow> []
         | Some tcs \<Rightarrow> concat (map (\<lambda>(k, tc). toolUseBlock rt k tc) (enumerate (drawn ?st) tcs))"
  let ?body = "fst (chunkLoop rt cs \<lparr>toolRequested = False, drawn = 0\<rparr>)
      @ textEvents c @ ?calls @ metadataEvents c"
  let ?reason = "if ?b then ToolUse else EndTurn"
  have last: "fst (chunkEvents rt c ?st) =
      textEvents c @ ?calls @ metadataEvents c @ [ModelMessageStopEvent ?reason]"
    using assms(2) by (simp add: chunkEvents_eq doneEvents_def)
  have shape: "events (stream rt cfg messages opts (ChatStream (cs @ [c]) Completed)) =
      ModelMessageStartEvent ''assistant'' # ?body @ [ModelMessageStopEvent ?reason]"
    by (simp add: stream_events chunkLoop_append chunkLoop_Cons last del: chunkLoop.simps(2))
  have calls: "filter isMessageStart ?calls = []" "filter isMessageStop ?calls = []"
    by (simp_all add: toolUseBlocks_filter split: option.split)
  have "filter isMessageStart ?body = []"
    using calls by (simp add: chunkLoop_no_start textEvents_filter metadataEvents_filter)
  moreover have "filter isMessageStop ?body = []"
    using calls chunkLoop_not_done(1) [OF assms(1)]
    by (simp add: textEvents_filter metadataEvents_filter)
  ultimately show ?thesis
    using shape by blast
qed

text \<open>
  At a stream of one text chunk and a terminal chunk.
\<close>

theorem one_start_one_stop_witness:
  "\<exists>body reason.
     events (stream node llama [] None
       (ChatStream [textChunk ''Three.'', doneChunk None None] (Completed :: string ending))) =
       ModelMessageStartEvent ''assistant'' # body @ [ModelMessageStopEvent reason]
     \<and> filter isMessageStart body = []
     \<and> filter isMessageStop body = []"
proof -
  have h1: "\<forall>c' \<in> set [textChunk ''Three.'']. \<not> chunk_done c'"
    by (simp add: textChunk_def)
  have h2: "chunk_done (doneChunk None None)"
    by (simp add: doneChunk_def)
  show ?thesis
    using one_start_one_stop [OF h1 h2, of node llama "[]" None] by simp
qed

text \<open>
  The claim as it was stated holds for every stream that the transport completes. The
  translator yields a message-stop only on a chunk marked done, so a stream that ends
  without such a chunk gives no message-stop at all.
\<close>

theorem stream_ends_without_stop:
  "events (stream node llama [] None
     (ChatStream [textChunk ''Three.''] (Completed :: string ending))) =
     [ModelMessageStartEvent ''assistant'', ModelContentBlockDeltaEvent (TextDelta ''Three.'')]
   \<and> thrown (stream node llama [] None
     (ChatStream [textChunk ''Three.''] (Completed :: string ending))) = None"
  by (simp add: stream_def chunkEvents_def textChunk_def textEvents_def chunkToolCalls_def
      doneEvents_def)

text \<open>
  Claim C2. For a chunk \<open>c\<close> that carries the tool-call descriptors \<open>tcs\<close>, at any place
  of the stream, the events of the run are: the events of the chunks before \<open>c\<close>; the text
  delta of \<open>c\<close> if it has one; then for each descriptor, in the order of \<open>tcs\<close>, its three
  events one after the other (a content-block-start with the descriptor's function name
  and an identifier made from a draw of the random source of its own, the next one not
  yet used in this run; one delta with the serialized arguments; one content-block-stop);
  then the events of the done flag of \<open>c\<close> and of the chunks after it. In the whole
  sequence every content-block-start is followed at once by its delta and its stop, so
  tool-call blocks are never interleaved.
\<close>

theorem tool_calls_in_order:
  assumes "chunkToolCalls c = Some tcs"
  shows "events (stream rt cfg messages opts (ChatStream (before @ c # after) (ending :: 'e ending))) =
           events (stream rt cfg messages opts (ChatStream before (Completed :: 'e ending)))
           @ textEvents c
           @ concat (map (\<lambda>(k, tc). toolUseBlock rt k tc) (enumerate (callCount before) tcs))
           @ doneEvents c (list_ex hasToolCall (before @ [c]))
           @ fst (chunkLoop rt after
                   \<lparr>toolRequested = list_ex hasToolCall (before @ [c]),
                    drawn = callCount before + length tcs\<rparr>)
    \<and> toolBlocksClosed
        (events (stream rt cfg messages opts (ChatStream (before @ c # after) ending)))"
proof -
  let ?init = "\<lparr>toolRequested = False, drawn = 0\<rparr>"
  have count: "callCount [c] = length tcs"
    using assms by (simp add: callCount_def)
  have "fst (chunkLoop rt (before @ c # after) ?init) =
      fst (chunkLoop rt before ?init)
      @ fst (chunkEvents rt c (snd (chunkLoop rt before ?init)))
      @ fst (chunkLoop rt after (snd (chunkEvents rt c (snd (chunkLoop rt before ?init)))))"
    by (simp add: chunkLoop_append chunkLoop_Cons del: chunkLoop.simps(2))
  then have "fst (chunkLoop rt (before @ c # after) ?init) =
      fst (chunkLoop rt before ?init)
      @ textEvents c
      @ concat (map (\<lambda>(k, tc). toolUseBlock rt k tc) (enumerate (callCount before) tcs))
      @ doneEvents c (list_ex hasToolCall (before @ [c]))
      @ fst (chunkLoop rt after
               \<lparr>toolRequested = list_ex hasToolCall (before @ [c]),
                drawn = callCount before + length tcs\<rparr>)"
    using assms count by (simp add: chunkEvents_eq chunkLoop_state)
  moreover have "toolBlocksClosed
      (events (stream rt cfg messages opts (ChatStream (before @ c # after) ending)))"
    by (simp add: stream_events chunkLoop_closed)
  ultimately show ?thesis
    by (simp add: stream_events)
qed

text \<open>
  At a chunk with two descriptors, followed by a terminal chunk.
\<close>

theorem tool_calls_in_order_witness:
  "events (stream node llama [] None
      (ChatStream
         [\<lparr>chunk_message = Some \<lparr>message_content = None,
             tool_calls = Some [letterCounter, letterCounter]\<rparr>,
           chunk_done = False, prompt_eval_count = None, eval_count = None\<rparr>,
          doneChunk None None]
         (Completed :: string ending))) =
     [ModelMessageStartEvent ''assistant'',
      ModelContentBlockStartEvent ''call_k3x9q2a'' ''letter_counter'',
      ModelContentBlockDeltaEvent (ToolUseInputDelta (show_json (function_arguments letterCounter))),
      ModelContentBlockStopEvent,
      ModelContentBlockStartEvent ''call_p0m1'' ''letter_counter'',
      ModelContentBlockDeltaEvent (ToolUseInputDelta (show_json (function_arguments letterCounter))),
      ModelContentBlockStopEvent,
      ModelMessageStopEvent ToolUse]"
proof -
  let ?c = "\<lparr>chunk_message = Some \<lparr>message_content = None,
             tool_calls = Some [letterCounter, letterCounter]\<rparr>,
           chunk_done = False, prompt_eval_count = None, eval_count = None\<rparr>"
  have h: "chunkToolCalls ?c = Some [letterCounter, letterCounter]"
    by (simp add: chunkToolCalls_def)
  have "events (stream node llama [] None
      (ChatStream ([] @ ?c # [doneChunk None None]) (Completed :: string ending))) =
      events (stream node llama [] None (ChatStream [] (Completed :: string ending)))
      @ textEvents ?c
      @ concat (map (\<lambda>(k, tc). toolUseBlock node k tc)
          (enumerate (callCount []) [letterCounter, letterCounter]))
      @ doneEvents ?c (list_ex hasToolCall ([] @ [?c]))
      @ fst (chunkLoop node [doneChunk None None]
          \<lparr>toolRequested = list_ex hasToolCall ([] @ [?c]),
           drawn = callCount [] + length [letterCounter, letterCounter]\<rparr>)"
    by (rule conjunct1 [OF tool_calls_in_order [OF h]])
  then show ?thesis
    by (simp add: stream_events textEvents_def doneEvents_def metadataEvents_def callCount_def
        hasToolCall_def chunkToolCalls_def toolUseBlock_def chunkEvents_def doneChunk_def
        node_def letterCounter_def)
qed

text \<open>
  Claim C4, as amended. For every response stream whose only done chunk is its last
  chunk, a metadata event is emitted iff that chunk carries a prompt token count. When
  emitted it is the only metadata event and stands immediately before the message-stop
  that ends the sequence; its \<open>inputTokens\<close> is the prompt count, its \<open>outputTokens\<close> the
  completion count, or 0 when the chunk carries none, and its \<open>totalTokens\<close> their sum.
  Without a prompt count no metadata event appears.
\<close>

theorem metadata_from_terminal_chunk:
  assumes "\<forall>c' \<in> set cs. \<not> chunk_done c'" and "chunk_done c"
  shows "filter isMetadata (events (stream rt cfg messages opts (ChatStream (cs @ [c]) ending))) =
           (case prompt_eval_count c of
              None \<Rightarrow> []
            | Some p \<Rightarrow>
                [ModelMetadataEvent
                   \<lparr>inputTokens = p,
                    outputTokens = (case eval_count c of None \<Rightarrow> 0 | Some q \<Rightarrow> q),
                    totalTokens = p + (case eval_count c of None \<Rightarrow> 0 | Some q \<Rightarrow> q)\<rparr>])
    \<and> (\<exists>body reason.
           events (stream rt cfg messages opts (ChatStream (cs @ [c]) ending)) =
             body
             @ filter isMetadata (events (stream rt cfg messages opts (ChatStream (cs @ [c]) ending)))
             @ [ModelMessageStopEvent reason])"
proof -
  let ?init = "\<lparr>toolRequested = False, drawn = 0\<rparr>"
  let ?st = "snd (chunkLoop rt cs ?init)"
  let ?b = "toolRequested ?st \<or> hasToolCall c"
  let ?calls = "case chunkToolCalls c of
           None \<Rightarrow> []
         | Some tcs \<Rightarrow> concat (map (\<lambda>(k, tc). toolUseBlock rt k tc) (enumerate (drawn ?st) tcs))"
  let ?evs = "events (stream rt cfg messages opts (ChatStream (cs @ [c]) ending))"
  let ?body = "ModelMessageStartEvent ''assistant'' # fst (chunkLoop rt cs ?init) @ textEvents c @ ?calls"
  have shape: "?evs = ?body @ metadataEvents c @ [ModelMessageStopEvent (if ?b then ToolUse else EndTurn)]"
    using assms(2)
    by (simp add: stream_events chunkLoop_append chunkLoop_Cons chunkEvents_eq doneEvents_def
        del: chunkLoop.simps(2))
  have calls: "filter isMetadata ?calls = []"
    by (simp add: toolUseBlocks_filter split: option.split)
  have "filter isMetadata ?body = []"
    using calls chunkLoop_not_done(2) [OF assms(1)] by (simp add: textEvents_filter)
  then have meta: "filter isMetadata ?evs = metadataEvents c"
    unfolding shape by (simp add: metadataEvents_filter)
  have "?evs = ?body @ filter isMetadata ?evs @ [ModelMessageStopEvent (if ?b then ToolUse else EndTurn)]"
    unfolding meta by (rule shape)
  then have "\<exists>body reason. ?evs = body @ filter isMetadata ?evs @ [ModelMessageStopEvent reason]"
    by blast
  then show ?thesis
    using meta by (simp add: metadataEvents_eq)
qed

text \<open>
  At two tool-call chunks and a terminal chunk with the counts 10 and 5.
\<close>

theorem metadata_from_terminal_chunk_witness:
  "filter isMetadata (events (stream node llama [] None
      (ChatStream [callChunk False, callChunk False, doneChunk (Some 10) (Some 5)]
        (Completed :: string ending)))) =
     [ModelMetadataEvent \<lparr>inputTokens = 10, outputTokens = 5, totalTokens = 15\<rparr>]"
proof -
  have h1: "\<forall>c' \<in> set [callChunk False, callChunk False]. \<not> chunk_done c'"
    by (simp add: callChunk_def)
  have h2: "chunk_done (doneChunk (Some 10) (Some 5))"
    by (simp add: doneChunk_def)
  have "prompt_eval_count (doneChunk (Some 10) (Some 5)) = Some 10"
    and "eval_count (doneChunk (Some 10) (Some 5)) = Some 5"
    by (simp_all add: doneChunk_def)
  then show ?thesis
    using conjunct1 [OF metadata_from_terminal_chunk [OF h1 h2, of node llama "[]" None Completed]]
    by simp
qed

text \<open>
  The claim as it was stated has the metadata event emitted iff the terminal chunk
  carries the prompt and completion token counts, with \<open>outputTokens\<close> equal to the
  completion count. The translator tests the prompt count alone: a terminal chunk with a
  prompt count and no completion count gives a metadata event, with 0 for the missing
  count, and a terminal chunk with a completion count and no prompt count gives none.
\<close>

theorem metadata_follows_prompt_count:
  "eval_count (doneChunk (Some 10) None) = None
   \<and> events (stream node llama [] None
       (ChatStream [doneChunk (Some 10) None] (Completed :: string ending))) =
     [ModelMessageStartEvent ''assistant'',
      ModelMetadataEvent \<lparr>inputTokens = 10, outputTokens = 0, totalTokens = 10\<rparr>,
      ModelMessageStopEvent EndTurn]
   \<and> eval_count (doneChunk None (Some 5)) = Some 5
   \<and> events (stream node llama [] None
       (ChatStream [doneChunk None (Some 5)] (Completed :: string ending))) =
     [ModelMessageStartEvent ''assistant'', ModelMessageStopEvent EndTurn]"
  by (simp add: stream_def chunkEvents_def doneChunk_def textEvents_def chunkToolCalls_def
      doneEvents_def metadataEvents_def orZero_def)

text \<open>
  Claim C5, as amended. The translator emits one message-stop for each chunk marked
  done, in the order of the chunks, and the stop reason it carries is \<^verbatim>\<open>toolUse\<close> iff at
  least one tool-call descriptor stands in a chunk of the stream up to and including
  that done chunk, and \<^verbatim>\<open>endTurn\<close> otherwise.
\<close>

theorem stop_reason_from_tool_calls:
  "filter isMessageStop (events (stream rt cfg messages opts (ChatStream chunks ending))) =
     map (\<lambda>n. ModelMessageStopEvent
                (if list_ex hasToolCall (take (Suc n) chunks) then ToolUse else EndTurn))
       (filter (\<lambda>n. chunk_done (chunks ! n)) [0..<length chunks])"
  by (simp add: stream_events chunkLoop_stops)

text \<open>
  At a tool-call chunk, a text chunk and a terminal chunk.
\<close>

theorem stop_reason_from_tool_calls_witness:
  "filter isMessageStop (events (stream node llama [] None
      (ChatStream [callChunk False, textChunk ''Done.'', doneChunk None None]
        (Completed :: string ending)))) =
     [ModelMessageStopEvent ToolUse]"
  using stop_reason_from_tool_calls [of node llama "[]" None
      "[callChunk False, textChunk ''Done.'', doneChunk None None]" "Completed :: string ending"]
  by (simp add: upt_rec hasToolCall_def chunkToolCalls_def callChunk_def textChunk_def doneChunk_def)

text \<open>
  The claim as it was stated counts the descriptors of the chunks before the done chunk
  only. The translator handles the tool calls of a chunk before its done flag, so a
  descriptor carried by the done chunk itself makes the stop reason \<^verbatim>\<open>toolUse\<close>, with no
  descriptor in any chunk before it.
\<close>

theorem tool_call_in_done_chunk:
  "events (stream node llama [] None (ChatStream [callChunk True] (Completed :: string ending))) =
     [ModelMessageStartEvent ''assistant'',
      ModelContentBlockStartEvent ''call_k3x9q2a'' ''letter_counter'',
      ModelContentBlockDeltaEvent (ToolUseInputDelta (show_json (function_arguments letterCounter))),
      ModelContentBlockStopEvent,
      ModelMessageStopEvent ToolUse]
   \<and> \<not> list_ex hasToolCall (butlast [callChunk True])"
  by (simp add: stream_def chunkEvents_def callChunk_def textEvents_def chunkToolCalls_def
      doneEvents_def metadataEvents_def node_def letterCounter_def)

text \<open>
  Claim C8. When \<^verbatim>\<open>client.chat\<close> rejects, or the iteration of the response raises after
  any number of chunks, the run throws that same error to the caller and calls
  \<^verbatim>\<open>logger.error\<close> exactly once, with that error. The events are the message-start alone
  in the first case, and in the second exactly the events of the chunks delivered before
  the error, the ones the same chunks give when the stream ends there: the sequence
  stops where it stood, a prefix of what a longer stream would give, and no event is
  added for the error. A run without an error throws nothing and logs nothing.
\<close>

theorem transport_error_rethrown:
  fixes err :: 'e
  shows "thrown (stream rt cfg messages opts (ChatRejected err)) = Some err
   \<and> logged (stream rt cfg messages opts (ChatRejected err)) = [(''Ollama Stream Error:'', err)]
   \<and> events (stream rt cfg messages opts (ChatRejected err)) = [ModelMessageStartEvent ''assistant'']
   \<and> thrown (stream rt cfg messages opts (ChatStream chunks (Raised err))) = Some err
   \<and> logged (stream rt cfg messages opts (ChatStream chunks (Raised err))) =
       [(''Ollama Stream Error:'', err)]
   \<and> events (stream rt cfg messages opts (ChatStream chunks (Raised err))) =
       events (stream rt cfg messages opts (ChatStream chunks (Completed :: 'e ending)))
   \<and> events (stream rt cfg messages opts (ChatStream (chunks @ later) (Completed :: 'e ending))) =
       events (stream rt cfg messages opts (ChatStream chunks (Raised err)))
       @ fst (chunkLoop rt later (snd (chunkLoop rt chunks \<lparr>toolRequested = False, drawn = 0\<rparr>)))
   \<and> thrown (stream rt cfg messages opts (ChatStream chunks (Completed :: 'e ending))) = None
   \<and> logged (stream rt cfg messages opts (ChatStream chunks (Completed :: 'e ending))) = []"
  by (simp add: stream_events chunkLoop_append) (simp add: stream_def split: prod.split)

text \<open>
  At a stream that raises after one text delta.
\<close>

theorem transport_error_rethrown_witness:
  "events (stream node llama [] None (ChatStream [textChunk ''Thr''] (Raised ''ECONNRESET''))) =
     [ModelMessageStartEvent ''assistant'', ModelContentBlockDeltaEvent (TextDelta ''Thr'')]
   \<and> thrown (stream node llama [] None (ChatStream [textChunk ''Thr''] (Raised ''ECONNRESET''))) =
       Some ''ECONNRESET''
   \<and> logged (stream node llama [] None (ChatStream [textChunk ''Thr''] (Raised ''ECONNRESET''))) =
       [(''Ollama Stream Error:'', ''ECONNRESET'')]"
proof -
  note rethrown = transport_error_rethrown [of node llama "[]" None "''ECONNRESET''"
      "[textChunk ''Thr'']" "[]"]
  have "events (stream node llama [] None
      (ChatStream [textChunk ''Thr''] (Completed :: string ending))) =
     [ModelMessageStartEvent ''assistant'', ModelContentBlockDeltaEvent (TextDelta ''Thr'')]"
    by (simp add: stream_events chunkEvents_def textChunk_def textEvents_def chunkToolCalls_def
        doneEvents_def)
  moreover have "events (stream node llama [] None
      (ChatStream [textChunk ''Thr''] (Raised ''ECONNRESET''))) =
      events (stream node llama [] None (ChatStream [textChunk ''Thr''] (Completed :: string ending)))"
    using rethrown by blast
  moreover have "thrown (stream node llama [] None
      (ChatStream [textChunk ''Thr''] (Raised ''ECONNRESET''))) = Some ''ECONNRESET''"
    using rethrown by blast
  moreover have "logged (stream node llama [] None
      (ChatStream [textChunk ''Thr''] (Raised ''ECONNRESET''))) =
       [(''Ollama Stream Error:'', ''ECONNRESET'')]"
    using rethrown by blast
  ultimately show ?thesis
    by simp
qed

end
